theory Spec2Isabelle
  imports Complex_Main
begin

section \<open>The inverse Box-Cox evaluation (InverseBoxCoxEvaluation.cxx)\<close>

text \<open>
  A \<^verbatim>\<open>Scalar\<close> of the source is a C++ double. Here it is a value of the type variable
  \<open>'d\<close>, and every operation that the source applies to doubles is a field of the record
  \<open>library\<close> below: the literals, the arithmetic operators, the two comparisons,
  \<^verbatim>\<open>std::abs\<close>, \<^verbatim>\<open>exp\<close> and \<^verbatim>\<open>pow\<close>. Nothing is assumed of these operations, so
  rounding, overflow and NaN are whatever the platform makes them. A \<^verbatim>\<open>Point\<close> is the
  list of its coordinates and its dimension (\<^verbatim>\<open>getDimension\<close>, \<^verbatim>\<open>getSize\<close>) is the
  length of that list. A \<^verbatim>\<open>Sample\<close> has a dimension of its own, which an empty sample
  keeps, its rows and a description. Isabelle reserves a trailing underscore, so a member
  \<^verbatim>\<open>name_\<close> of the source is written \<open>name'\<close>.
\<close>

type_synonym Description = "string list"

record 'd Sample =
  sampleDimension :: nat
  sampleRows :: "'d list list"
  sampleDescription :: Description

datatype error = InvalidArgument

text \<open>
  The members that the evaluation inherits from \<^verbatim>\<open>EvaluationImplementation\<close>: the call
  counter, the history switch, the two history strategies and the two descriptions. The
  base class is not part of the source, so the type of a history strategy is a type
  variable and the state that the base class constructor builds is an argument of the
  constructors below.
\<close>

record 'h EvaluationImplementation =
  callsNumber' :: nat
  isHistoryEnabled' :: bool
  inputStrategy' :: 'h
  outputStrategy' :: 'h
  inputDescription' :: Description
  outputDescription' :: Description

record ('d, 'h) InverseBoxCoxEvaluation = "'h EvaluationImplementation" +
  lambda' :: "'d list"
  shift' :: "'d list"

text \<open>
  What the source uses and does not define. On doubles: the literals \<^verbatim>\<open>0.0\<close> (the
  coordinates of a fresh \<^verbatim>\<open>Point\<close>, and the \<^verbatim>\<open>0\<close> that a double is compared with),
  \<^verbatim>\<open>1.0\<close>, \<^verbatim>\<open>0.5\<close> and \<^verbatim>\<open>1e-8\<close>; the operators \<^verbatim>\<open>-\<close>, \<^verbatim>\<open>+\<close>, \<^verbatim>\<open>*\<close> and
  \<^verbatim>\<open>/\<close>; \<^verbatim>\<open>std::abs\<close>, \<^verbatim>\<open>exp\<close> and \<^verbatim>\<open>pow\<close>; the comparisons \<^verbatim>\<open><\<close> and
  \<^verbatim>\<open><=\<close>. Of the library: \<^verbatim>\<open>Description::BuildDefault\<close> and the two \<^verbatim>\<open>store\<close>
  overloads of a history strategy. They are the fields of one record that every operation
  takes as its first argument. An expression of the source is translated operator by
  operator, in the order of the C++ grammar: \<^verbatim>\<open>lambda * x * x\<close> is
  \<open>fmul (fmul lambda x) x\<close>.
\<close>

record ('d, 'h) library =
  lit0 :: 'd
  lit1 :: 'd
  lit05 :: 'd
  lit1e_8 :: 'd
  fsub :: "'d \<Rightarrow> 'd \<Rightarrow> 'd"
  fadd :: "'d \<Rightarrow> 'd \<Rightarrow> 'd"
  fmul :: "'d \<Rightarrow> 'd \<Rightarrow> 'd"
  fdiv :: "'d \<Rightarrow> 'd \<Rightarrow> 'd"
  fabs :: "'d \<Rightarrow> 'd"
  fexp :: "'d \<Rightarrow> 'd"
  pow :: "'d \<Rightarrow> 'd \<Rightarrow> 'd"
  flt :: "'d \<Rightarrow> 'd \<Rightarrow> bool"
  fle :: "'d \<Rightarrow> 'd \<Rightarrow> bool"
  BuildDefault :: "nat \<Rightarrow> string \<Rightarrow> Description"
  storePoint :: "'h \<Rightarrow> 'd list \<Rightarrow> 'h"
  storeSample :: "'h \<Rightarrow> 'd Sample \<Rightarrow> 'h"

definition setInputDescription ::
  "Description \<Rightarrow> ('d, 'h) InverseBoxCoxEvaluation \<Rightarrow> ('d, 'h) InverseBoxCoxEvaluation" where
  "setInputDescription d ev = ev\<lparr>inputDescription' := d\<rparr>"

definition setOutputDescription ::
  "Description \<Rightarrow> ('d, 'h) InverseBoxCoxEvaluation \<Rightarrow> ('d, 'h) InverseBoxCoxEvaluation" where
  "setOutputDescription d ev = ev\<lparr>outputDescription' := d\<rparr>"

definition getOutputDescription :: "('d, 'h) InverseBoxCoxEvaluation \<Rightarrow> Description" where
  "getOutputDescription ev = outputDescription' ev"

text \<open>Default constructor: both points are empty.\<close>

definition InverseBoxCoxEvaluation0 ::
  "'h EvaluationImplementation \<Rightarrow> ('d, 'h) InverseBoxCoxEvaluation" where
  "InverseBoxCoxEvaluation0 base =
     EvaluationImplementation.extend base
       (InverseBoxCoxEvaluation.fields [] [])"

text \<open>
  Parameter constructor: \<^verbatim>\<open>shift_(lambda.getDimension())\<close> is the zero point of the
  dimension of \<^verbatim>\<open>lambda\<close>.
\<close>

definition InverseBoxCoxEvaluation1 ::
  "('d, 'h) library \<Rightarrow> 'h EvaluationImplementation \<Rightarrow> 'd list \<Rightarrow>
     ('d, 'h) InverseBoxCoxEvaluation" where
  "InverseBoxCoxEvaluation1 L base lambda =
     (let ev = EvaluationImplementation.extend base
                 (InverseBoxCoxEvaluation.fields lambda (replicate (length lambda) (lit0 L)));
          ev = setInputDescription (BuildDefault L (length (lambda' ev)) ''x'') ev;
          ev = setOutputDescription (BuildDefault L (length (lambda' ev)) ''y'') ev
      in ev)"

text \<open>
  The constructor from \<^verbatim>\<open>lambda\<close> and \<^verbatim>\<open>shift\<close> throws in its body, after the members
  are initialised: no object exists then, and the model returns the error alone.
\<close>

definition InverseBoxCoxEvaluation2 ::
  "('d, 'h) library \<Rightarrow> 'h EvaluationImplementation \<Rightarrow> 'd list \<Rightarrow> 'd list \<Rightarrow>
     error + ('d, 'h) InverseBoxCoxEvaluation" where
  "InverseBoxCoxEvaluation2 L base lambda shift =
     (let ev = EvaluationImplementation.extend base
                 (InverseBoxCoxEvaluation.fields lambda shift)
      in if length lambda \<noteq> length shift then Inl InvalidArgument
         else
           (let ev = setInputDescription (BuildDefault L (length (lambda' ev)) ''x'') ev;
                ev = setOutputDescription (BuildDefault L (length (lambda' ev)) ''y'') ev
            in Inr ev))"

definition getLambda :: "('d, 'h) InverseBoxCoxEvaluation \<Rightarrow> 'd list" where
  "getLambda ev = lambda' ev"

definition getShift :: "('d, 'h) InverseBoxCoxEvaluation \<Rightarrow> 'd list" where
  "getShift ev = shift' ev"

definition getInputDimension :: "('d, 'h) InverseBoxCoxEvaluation \<Rightarrow> nat" where
  "getInputDimension ev = length (lambda' ev)"

definition getOutputDimension :: "('d, 'h) InverseBoxCoxEvaluation \<Rightarrow> nat" where
  "getOutputDimension ev = length (lambda' ev)"

subsection \<open>The evaluation of a sample\<close>

text \<open>
  The body of the inner loop of \<^verbatim>\<open>InverseBoxCoxEvaluationComputeSamplePolicy\<close>: the
  value written to \<^verbatim>\<open>output_[i][j]\<close>. It has no test of the sign of the base.
\<close>

definition policyCoordinate ::
  "('d, 'h) library \<Rightarrow> ('d, 'h) InverseBoxCoxEvaluation \<Rightarrow> 'd list \<Rightarrow> nat \<Rightarrow> 'd" where
  "policyCoordinate L evaluation' input_i j =
     (let lambda_j = getLambda evaluation' ! j;
          x = fsub L (input_i ! j) (getShift evaluation' ! j)
      in if flt L (fabs L (fmul L (fmul L lambda_j x) x)) (lit1e_8 L)
         then fmul L (fexp L x)
                (fsub L (lit1 L) (fmul L (fmul L (fmul L (lit05 L) lambda_j) x) x))
         else pow L (fadd L (fmul L lambda_j x) (lit1 L)) (fdiv L (lit1 L) lambda_j))"

text \<open>
  The policy writes every coordinate \<^verbatim>\<open>j\<close> below the input dimension of every row
  \<^verbatim>\<open>i\<close> of the range exactly once, and \<^verbatim>\<open>TBB::ParallelFor\<close> covers the range from 0 to
  the size; the rows of the result are therefore the rows below, whatever the blocks are.
\<close>

definition policyRow ::
  "('d, 'h) library \<Rightarrow> ('d, 'h) InverseBoxCoxEvaluation \<Rightarrow> 'd list \<Rightarrow> 'd list" where
  "policyRow L evaluation' input_i =
     map (policyCoordinate L evaluation' input_i) [0..<getInputDimension evaluation']"

definition evaluateSample ::
  "('d, 'h) library \<Rightarrow> ('d, 'h) InverseBoxCoxEvaluation \<Rightarrow> 'd Sample \<Rightarrow>
     error + ('d Sample \<times> ('d, 'h) InverseBoxCoxEvaluation)" where
  "evaluateSample L ev inS =
     (if sampleDimension inS \<noteq> getInputDimension ev then Inl InvalidArgument
      else
        (let size = length (sampleRows inS);
             result = \<lparr>sampleDimension = getInputDimension ev,
                       sampleRows = map (policyRow L ev) (sampleRows inS),
                       sampleDescription = []\<rparr>;
             ev = ev\<lparr>callsNumber' := callsNumber' ev + size\<rparr>;
             ev = (if isHistoryEnabled' ev
                   then ev\<lparr>inputStrategy' := storeSample L (inputStrategy' ev) inS,
                           outputStrategy' := storeSample L (outputStrategy' ev) result\<rparr>
                   else ev);
             result = result\<lparr>sampleDescription := getOutputDescription ev\<rparr>
         in Inr (result, ev)))"

subsection \<open>The evaluation of a point\<close>

text \<open>
  The loop over \<^verbatim>\<open>index\<close>: the indices still to visit and the result so far. The throw
  leaves the loop at once.
\<close>

fun evaluateCoordinates ::
  "('d, 'h) library \<Rightarrow> ('d, 'h) InverseBoxCoxEvaluation \<Rightarrow> 'd list \<Rightarrow> nat list \<Rightarrow> 'd list \<Rightarrow>
     error + 'd list" where
  "evaluateCoordinates L ev inP [] result = Inr result"
| "evaluateCoordinates L ev inP (index # rest) result =
     (let x = fsub L (inP ! index) (shift' ev ! index);
          lambda_i = lambda' ev ! index
      in if flt L (fabs L (fmul L (fmul L lambda_i x) x)) (lit1e_8 L)
         then evaluateCoordinates L ev inP rest
                (result[index := fmul L (fexp L x)
                   (fsub L (lit1 L) (fmul L (fmul L (fmul L (lit05 L) lambda_i) x) x))])
         else
           (let evaluation = fadd L (fmul L lambda_i x) (lit1 L)
            in if fle L evaluation (lit0 L) then Inl InvalidArgument
               else evaluateCoordinates L ev inP rest
                      (result[index := pow L evaluation (fdiv L (lit1 L) lambda_i)])))"

definition evaluatePoint ::
  "('d, 'h) library \<Rightarrow> ('d, 'h) InverseBoxCoxEvaluation \<Rightarrow> 'd list \<Rightarrow>
     error + ('d list \<times> ('d, 'h) InverseBoxCoxEvaluation)" where
  "evaluatePoint L ev inP =
     (let dimension = getInputDimension ev
      in if length inP \<noteq> dimension then Inl InvalidArgument
         else
           (case evaluateCoordinates L ev inP [0..<dimension] (replicate dimension (lit0 L)) of
              Inl e \<Rightarrow> Inl e
            | Inr result \<Rightarrow>
                (let ev = ev\<lparr>callsNumber' := callsNumber' ev + 1\<rparr>;
                     ev = (if isHistoryEnabled' ev
                           then ev\<lparr>inputStrategy' := storePoint L (inputStrategy' ev) inP,
                                   outputStrategy' := storePoint L (outputStrategy' ev) result\<rparr>
                           else ev)
                 in Inr (result, ev))))"

section \<open>The step deltas of the basis sequence factory (BasisSequenceFactoryImplementation.hxx)\<close>

text \<open>
  The header declares, as members of the factory, the active indices
  (\<^verbatim>\<open>currentIndices_\<close>) and three collections of ranks: of the vectors added to the
  current partial basis, of the vectors common to the previous and the current partial
  basis, and of the vectors removed from the previous one. \<^verbatim>\<open>Indices\<close> is a
  collection of unsigned integers.
\<close>

type_synonym Indices = "nat list"

text \<open>
  Modelled from the spec: the step deltas of an iteration from the active set
  \<open>previous\<close> to the active set \<open>current\<close>. The function that fills the rank members
  (\<^verbatim>\<open>updateBasis\<close>) is declared in the header and its body is not in the source. After
  the spec, a rank is a position in an ordered active set; the added ranks are the
  positions in the new active set of the indices that the old one does not hold, the
  conserved ranks are the positions in the new active set of the indices that the old one
  holds, each with its position in the old one, and the removed ranks are the positions
  in the old active set of the indices that the new one does not hold.
\<close>

record StepDeltas =
  addedRanks :: Indices
  conservedRanks :: "(nat \<times> nat) list"
  removedRanks :: Indices

text \<open>
  Modelled from the spec: the three collections of an iteration, as the spec defines them
  from the old and the new active set.
\<close>

definition stepDeltas :: "Indices \<Rightarrow> Indices \<Rightarrow> StepDeltas" where
  "stepDeltas previous current =
     \<lparr>addedRanks = filter (\<lambda>p. current ! p \<notin> set previous) [0..<length current],
      conservedRanks =
        [(p, q). p \<leftarrow> [0..<length current], q \<leftarrow> [0..<length previous],
                 current ! p = previous ! q],
      removedRanks = filter (\<lambda>q. previous ! q \<notin> set current) [0..<length previous]\<rparr>"

section \<open>The least-squares fit of a step\<close>

text \<open>
  Modelled from the spec: the numbers of the spec (the values of the basis functions, the
  responses and the coefficients) are real numbers, and a vector of them is a list.
\<close>

type_synonym Scalar = real
type_synonym Point = "Scalar list"

text \<open>
  Modelled from the spec: the candidate dictionary, an ordered sequence of scalar basis
  functions of an input point. The class \<^verbatim>\<open>Basis\<close> is named by the header and is not
  in the source.
\<close>

type_synonym Basis = "(Point \<Rightarrow> Scalar) list"

text \<open>
  Modelled from the spec: the Basis Sequence, an ordered sequence of pairs of an active
  index set and a coefficient vector, one per accepted iteration. The class
  \<^verbatim>\<open>BasisSequence\<close> is included by the header and is not in the source.
\<close>

type_synonym BasisSequence = "(Indices \<times> Point) list"

text \<open>
  Modelled from the spec: the Design Provider, which holds the sample of input points and
  the dictionary. The class \<^verbatim>\<open>DesignProxy\<close> is included by the header and is not in the
  source.
\<close>

record DesignProxy =
  designSample :: "Point list"
  designBasis :: Basis

text \<open>
  Modelled from the spec: \<^verbatim>\<open>evaluateColumns\<close> of the Design Provider, which returns
  for the requested dictionary indices the matrix whose columns are the evaluations of
  each basis function on the sample. The matrix is the list of its columns.
\<close>

definition evaluateColumns :: "DesignProxy \<Rightarrow> Indices \<Rightarrow> Point list" where
  "evaluateColumns proxy indices =
     map (\<lambda>j. map (designBasis proxy ! j) (designSample proxy)) indices"

text \<open>
  Modelled from the spec: the fitted values of a step, one per sample point: the
  combination of the active columns with the coefficients, which are aligned by position
  with the active index set. No code of the fit is in the source.
\<close>

definition fittedValues :: "DesignProxy \<Rightarrow> Indices \<Rightarrow> Point \<Rightarrow> Point" where
  "fittedValues proxy active coefficients =
     map (\<lambda>i. sum_list (map2 (\<lambda>column c. c * column ! i)
                           (evaluateColumns proxy active) coefficients))
       [0..<length (designSample proxy)]"

text \<open>
  Modelled from the spec: the residual, "response - fitted values".
\<close>

definition residual :: "Point \<Rightarrow> Point \<Rightarrow> Point" where
  "residual response fitted = map2 (\<lambda>y f. y - f) response fitted"

text \<open>
  Modelled from the spec: the sum of squares of a vector.
\<close>

definition sumOfSquares :: "Point \<Rightarrow> Scalar" where
  "sumOfSquares r = sum_list (map (\<lambda>v. v * v) r)"

text \<open>
  Modelled from the spec: the sum of squares of the residual of a step of the Basis
  Sequence.
\<close>

definition residualSumOfSquares :: "DesignProxy \<Rightarrow> Point \<Rightarrow> Indices \<times> Point \<Rightarrow> Scalar" where
  "residualSumOfSquares proxy y step =
     sumOfSquares (residual y (fittedValues proxy (fst step) (snd step)))"

text \<open>
  Modelled from the spec: what \<^verbatim>\<open>solve\<close> of the Solver returns, "least-squares
  coefficients for the current active columns against the given response vector": one
  coefficient per active index, and no other coefficient vector of that length leaves a
  smaller sum of squares of the residual. The Solver (\<^verbatim>\<open>LeastSquaresMethod\<close>) is included
  by the header and is not in the source.
\<close>

definition isLeastSquares :: "DesignProxy \<Rightarrow> Point \<Rightarrow> Indices \<times> Point \<Rightarrow> bool" where
  "isLeastSquares proxy y step \<longleftrightarrow>
     length (snd step) = length (fst step) \<and>
     (\<forall>c. length c = length (fst step) \<longrightarrow>
        residualSumOfSquares proxy y step \<le> residualSumOfSquares proxy y (fst step, c))"

text \<open>
  Modelled from the spec: a Basis Sequence of a run, in which the coefficients of every
  accepted step are the exact least-squares fit over the active set of that step (step 4
  of the iteration).
\<close>

definition exactFits :: "DesignProxy \<Rightarrow> Point \<Rightarrow> BasisSequence \<Rightarrow> bool" where
  "exactFits proxy y basisSequence \<longleftrightarrow> (\<forall>step \<in> set basisSequence. isLeastSquares proxy y step)"

text \<open>
  Modelled from the spec: a run in which every accepted step only adds columns: the
  active set is ordered by insertion, so each active set is the one before it followed by
  the added indices.
\<close>

definition onlyAddsColumns :: "BasisSequence \<Rightarrow> bool" where
  "onlyAddsColumns basisSequence \<longleftrightarrow>
     (\<forall>t. Suc t < length basisSequence \<longrightarrow>
        (\<exists>added. fst (basisSequence ! Suc t) = fst (basisSequence ! t) @ added))"

section \<open>An instance of the parts that the source does not define, for the examples\<close>

text \<open>
  A library for the examples: the operations of the reals, an exponent 1 of \<open>pow\<close>
  returning the base whatever its sign, as the C function does, a default description that
  repeats the prefix, and history strategies that store nothing. On the operands of the
  examples below (0, 1, 2, -1, -2 and 4) the operations on doubles are exact and give the
  same results. Then the state of an evaluation that has not been called.
\<close>

definition exampleLibrary :: "(real, unit) library" where
  "exampleLibrary =
     \<lparr>lit0 = 0, lit1 = 1, lit05 = 1 / 2, lit1e_8 = 1 / 10 ^ 8,
      fsub = (\<lambda>a b. a - b), fadd = (\<lambda>a b. a + b), fmul = (\<lambda>a b. a * b),
      fdiv = (\<lambda>a b. a / b), fabs = (\<lambda>a. \<bar>a\<bar>), fexp = exp,
      pow = (\<lambda>b e. if e = 1 then b else b powr e),
      flt = (\<lambda>a b. a < b), fle = (\<lambda>a b. a \<le> b),
      BuildDefault = (\<lambda>n s. replicate n s),
      storePoint = (\<lambda>h p. h), storeSample = (\<lambda>h s. h)\<rparr>"

definition exampleBase :: "unit EvaluationImplementation" where
  "exampleBase =
     \<lparr>callsNumber' = 0, isHistoryEnabled' = False, inputStrategy' = (),
      outputStrategy' = (), inputDescription' = [], outputDescription' = []\<rparr>"

text \<open>
  A design of two sample points, 0 and 1, and the dictionary of the constant and the
  linear function; the response \<open>1 + 2 x\<close>; and the Basis Sequence that first fits the
  constant alone and then the constant and the linear function.
\<close>

definition exampleProxy :: DesignProxy where
  "exampleProxy = \<lparr>designSample = [[0], [1]], designBasis = [\<lambda>x. 1, \<lambda>x. x ! 0]\<rparr>"

definition exampleResponse :: Point where
  "exampleResponse = [1, 3]"

definition exampleSequence :: BasisSequence where
  "exampleSequence = [([0], [2]), ([0, 1], [1, 2])]"

section \<open>Properties of the inverse Box-Cox evaluation\<close>

lemma lambda_extend [simp]:
  "lambda' (EvaluationImplementation.extend base (InverseBoxCoxEvaluation.fields l s)) = l"
  by (simp add: EvaluationImplementation.defs InverseBoxCoxEvaluation.defs)

lemma shift_extend [simp]:
  "shift' (EvaluationImplementation.extend base (InverseBoxCoxEvaluation.fields l s)) = s"
  by (simp add: EvaluationImplementation.defs InverseBoxCoxEvaluation.defs)

lemma lambda_ctor1: "lambda' (InverseBoxCoxEvaluation1 L base l) = l"
  by (simp add: InverseBoxCoxEvaluation1_def setInputDescription_def
      setOutputDescription_def Let_def)

lemma shift_ctor1:
  "shift' (InverseBoxCoxEvaluation1 L base l) = replicate (length l) (lit0 L)"
  by (simp add: InverseBoxCoxEvaluation1_def setInputDescription_def
      setOutputDescription_def Let_def)

lemma lambda_ctor2:
  "InverseBoxCoxEvaluation2 L base l s = Inr ev \<Longrightarrow>
   lambda' ev = l \<and> shift' ev = s \<and> length l = length s"
  by (auto simp add: InverseBoxCoxEvaluation2_def setInputDescription_def
      setOutputDescription_def Let_def split: if_splits)

lemma throwsAt:
  assumes "index \<in> set indices"
    and "\<not> flt L (fabs L (fmul L (fmul L (lambda' ev ! index)
            (fsub L (inP ! index) (shift' ev ! index)))
            (fsub L (inP ! index) (shift' ev ! index)))) (lit1e_8 L)"
    and "fle L (fadd L (fmul L (lambda' ev ! index)
            (fsub L (inP ! index) (shift' ev ! index))) (lit1 L)) (lit0 L)"
  shows "evaluateCoordinates L ev inP indices result = Inl InvalidArgument"
  using assms(1)
proof (induction indices arbitrary: result)
  case Nil
  then show ?case by simp
next
  case (Cons a indices)
  show ?case
  proof (cases "a = index")
    case True
    with assms(2,3) show ?thesis by (simp add: Let_def)
  next
    case False
    with Cons.prems have "index \<in> set indices" by simp
    from Cons.IH[OF this] show ?thesis by (simp add: Let_def)
  qed
qed

lemma evaluateSample_returns:
  assumes "sampleDimension inS = getInputDimension ev"
  shows "\<exists>ev'. evaluateSample L ev inS =
      Inr (\<lparr>sampleDimension = getInputDimension ev,
             sampleRows = map (policyRow L ev) (sampleRows inS),
             sampleDescription = outputDescription' ev\<rparr>, ev')"
  using assms by (simp add: evaluateSample_def Let_def getOutputDescription_def)

lemma policyCoordinate_pow:
  assumes "\<not> flt L (fabs L (fmul L (fmul L (lambda' ev ! j)
            (fsub L (row ! j) (shift' ev ! j)))
            (fsub L (row ! j) (shift' ev ! j)))) (lit1e_8 L)"
  shows "policyCoordinate L ev row j =
     pow L (fadd L (fmul L (lambda' ev ! j) (fsub L (row ! j) (shift' ev ! j))) (lit1 L))
       (fdiv L (lit1 L) (lambda' ev ! j))"
  using assms by (simp add: policyCoordinate_def Let_def getLambda_def getShift_def)

text \<open>
  Claim C9. The two overloads disagree on the same coordinate values. Take an evaluation,
  a point \<open>inP\<close> of its input dimension and a coordinate \<open>index\<close>, with \<open>lambda_i\<close> the
  exponent and \<open>x\<close> the shifted coordinate there, both as the source computes them. Let
  the double \<^verbatim>\<open>std::abs(lambda_i * x * x)\<close> not be below \<^verbatim>\<open>1e-8\<close> (the test of the
  source fails, as it does whenever that double is at least \<^verbatim>\<open>1e-8\<close>) and let the double
  \<^verbatim>\<open>lambda_i * x + 1.0\<close> be at most 0. Then the overload on points throws
  \<^verbatim>\<open>InvalidArgument\<close>, and the throw is the one of its loop over the coordinates. The
  overload on samples, given any sample of that dimension that holds \<open>inP\<close> as its row
  \<open>i\<close>, returns a sample, and the coordinate \<open>index\<close> of its row \<open>i\<close> is \<^verbatim>\<open>pow\<close> applied
  to that base, which is not positive. The statement holds for every interpretation of the
  operations on doubles.
\<close>

theorem point_throws_where_sample_returns:
  assumes "length inP = getInputDimension ev"
    and "index < getInputDimension ev"
    and "lambda_i = lambda' ev ! index"
    and "x = fsub L (inP ! index) (shift' ev ! index)"
    and "\<not> flt L (fabs L (fmul L (fmul L lambda_i x) x)) (lit1e_8 L)"
    and "fle L (fadd L (fmul L lambda_i x) (lit1 L)) (lit0 L)"
    and "sampleDimension inS = getInputDimension ev"
    and "i < length (sampleRows inS)"
    and "sampleRows inS ! i = inP"
  shows "evaluateCoordinates L ev inP [0..<length inP] (replicate (length inP) (lit0 L))
       = Inl InvalidArgument \<and>
     evaluatePoint L ev inP = Inl InvalidArgument \<and>
     (\<exists>result ev'. evaluateSample L ev inS = Inr (result, ev') \<and>
        sampleRows result ! i ! index
          = pow L (fadd L (fmul L lambda_i x) (lit1 L)) (fdiv L (lit1 L) lambda_i))"
proof (intro conjI)
  from assms(2) have "index \<in> set [0..<getInputDimension ev]" by simp
  then have loop: "evaluateCoordinates L ev inP [0..<getInputDimension ev]
      (replicate (getInputDimension ev) (lit0 L)) = Inl InvalidArgument"
    using assms(5,6) unfolding assms(3,4) by (rule throwsAt)
  then show "evaluateCoordinates L ev inP [0..<length inP] (replicate (length inP) (lit0 L))
       = Inl InvalidArgument"
    unfolding assms(1) .
  from loop show "evaluatePoint L ev inP = Inl InvalidArgument"
    by (simp add: evaluatePoint_def Let_def)
next
  from evaluateSample_returns[OF assms(7)] obtain ev' where
    r: "evaluateSample L ev inS =
      Inr (\<lparr>sampleDimension = getInputDimension ev,
             sampleRows = map (policyRow L ev) (sampleRows inS),
             sampleDescription = outputDescription' ev\<rparr>, ev')" by blast
  have "map (policyRow L ev) (sampleRows inS) ! i ! index = policyCoordinate L ev inP index"
    using assms(2,8,9) by (simp add: policyRow_def)
  also have "\<dots> = pow L (fadd L (fmul L lambda_i x) (lit1 L)) (fdiv L (lit1 L) lambda_i)"
    using assms(5) unfolding assms(3,4) by (rule policyCoordinate_pow)
  finally show "\<exists>result ev'. evaluateSample L ev inS = Inr (result, ev') \<and>
        sampleRows result ! i ! index
          = pow L (fadd L (fmul L lambda_i x) (lit1 L)) (fdiv L (lit1 L) lambda_i)"
    using r by simp
qed

text \<open>
  The witness of C9: \<open>lambda = [1]\<close>, the zero shift and the point \<open>[-2]\<close>. There \<open>x\<close> is
  -2, \<^verbatim>\<open>lambda_i * x * x\<close> is 4, which is not below \<^verbatim>\<open>1e-8\<close>, and
  \<^verbatim>\<open>lambda_i * x + 1.0\<close> is -1. The overload on points throws; the overload on samples
  returns \<^verbatim>\<open>pow(-1, 1)\<close>, which is -1.
\<close>

theorem point_throws_where_sample_returns_witness:
  "evaluateCoordinates exampleLibrary
     (InverseBoxCoxEvaluation1 exampleLibrary exampleBase [1]) [- 2] [0..<1] (replicate 1 0)
     = Inl InvalidArgument \<and>
   evaluatePoint exampleLibrary (InverseBoxCoxEvaluation1 exampleLibrary exampleBase [1]) [- 2]
     = Inl InvalidArgument \<and>
   (\<exists>result ev'.
      evaluateSample exampleLibrary (InverseBoxCoxEvaluation1 exampleLibrary exampleBase [1])
        \<lparr>sampleDimension = 1, sampleRows = [[- 2]], sampleDescription = []\<rparr> = Inr (result, ev') \<and>
      sampleRows result ! 0 ! 0 = - 1)"
  using point_throws_where_sample_returns
    [of "[- 2]" "InverseBoxCoxEvaluation1 exampleLibrary exampleBase [1]" 0 1 "- 2"
        exampleLibrary
        "\<lparr>sampleDimension = 1, sampleRows = [[- 2]], sampleDescription = []\<rparr>" 0]
  by (simp add: getInputDimension_def lambda_ctor1 shift_ctor1 exampleLibrary_def)

text \<open>
  Claim C10. The constructor from \<open>lambda\<close> and \<open>shift\<close> throws \<^verbatim>\<open>InvalidArgument\<close>
  exactly when the two dimensions differ. For every evaluation that it returns, and for
  the one that the constructor from \<open>lambda\<close> alone returns, the input dimension and the
  output dimension are the dimension of \<open>lambda\<close>, and both overloads of the call operator
  throw \<^verbatim>\<open>InvalidArgument\<close> on an input of another dimension.
\<close>

theorem constructor_and_dimension:
  "(InverseBoxCoxEvaluation2 L base lambda shift = Inl InvalidArgument
      \<longleftrightarrow> length lambda \<noteq> length shift) \<and>
   (\<forall>ev. InverseBoxCoxEvaluation2 L base lambda shift = Inr ev
          \<or> ev = InverseBoxCoxEvaluation1 L base lambda \<longrightarrow>
      getInputDimension ev = length lambda \<and>
      getOutputDimension ev = length lambda \<and>
      (\<forall>inP. length inP \<noteq> length lambda \<longrightarrow> evaluatePoint L ev inP = Inl InvalidArgument) \<and>
      (\<forall>inS. sampleDimension inS \<noteq> length lambda \<longrightarrow>
         evaluateSample L ev inS = Inl InvalidArgument))"
proof (intro conjI)
  show "InverseBoxCoxEvaluation2 L base lambda shift = Inl InvalidArgument
      \<longleftrightarrow> length lambda \<noteq> length shift"
    by (simp add: InverseBoxCoxEvaluation2_def Let_def)
next
  show "\<forall>ev. InverseBoxCoxEvaluation2 L base lambda shift = Inr ev
          \<or> ev = InverseBoxCoxEvaluation1 L base lambda \<longrightarrow>
      getInputDimension ev = length lambda \<and>
      getOutputDimension ev = length lambda \<and>
      (\<forall>inP. length inP \<noteq> length lambda \<longrightarrow> evaluatePoint L ev inP = Inl InvalidArgument) \<and>
      (\<forall>inS. sampleDimension inS \<noteq> length lambda \<longrightarrow>
         evaluateSample L ev inS = Inl InvalidArgument)"
  proof (intro allI impI)
    fix ev
    assume "InverseBoxCoxEvaluation2 L base lambda shift = Inr ev
          \<or> ev = InverseBoxCoxEvaluation1 L base lambda"
    then have l: "lambda' ev = lambda"
      using lambda_ctor1 lambda_ctor2 by blast
    then show "getInputDimension ev = length lambda \<and>
      getOutputDimension ev = length lambda \<and>
      (\<forall>inP. length inP \<noteq> length lambda \<longrightarrow> evaluatePoint L ev inP = Inl InvalidArgument) \<and>
      (\<forall>inS. sampleDimension inS \<noteq> length lambda \<longrightarrow>
         evaluateSample L ev inS = Inl InvalidArgument)"
      by (simp add: getInputDimension_def getOutputDimension_def evaluatePoint_def
          evaluateSample_def Let_def)
  qed
qed

text \<open>
  The witness of C10: a \<open>lambda\<close> of dimension 2 with a shift of dimension 1, which is
  refused, and with a shift of dimension 2, which gives an evaluation of dimension 2 that
  refuses a point of dimension 1 and a sample of dimension 3.
\<close>

theorem constructor_and_dimension_witness:
  "InverseBoxCoxEvaluation2 exampleLibrary exampleBase [1, 2] [0] = Inl InvalidArgument \<and>
   (\<exists>ev. InverseBoxCoxEvaluation2 exampleLibrary exampleBase [1, 2] [3, 4] = Inr ev \<and>
      getInputDimension ev = 2 \<and> getOutputDimension ev = 2 \<and>
      evaluatePoint exampleLibrary ev [1] = Inl InvalidArgument \<and>
      evaluateSample exampleLibrary ev
        \<lparr>sampleDimension = 3, sampleRows = [], sampleDescription = []\<rparr> = Inl InvalidArgument) \<and>
   getInputDimension (InverseBoxCoxEvaluation1 exampleLibrary exampleBase [1, 2]) = 2 \<and>
   evaluatePoint exampleLibrary (InverseBoxCoxEvaluation1 exampleLibrary exampleBase [1, 2]) [1, 2, 3]
     = Inl InvalidArgument"
proof -
  obtain ev where ev: "InverseBoxCoxEvaluation2 exampleLibrary exampleBase [1, 2] [3, 4] = Inr ev"
    by (simp add: InverseBoxCoxEvaluation2_def Let_def)
  show ?thesis
    using constructor_and_dimension [of exampleLibrary exampleBase "[1, 2]" "[0]"]
      constructor_and_dimension [of exampleLibrary exampleBase "[1, 2]" "[3, 4]"] ev
    by auto
qed

section \<open>Properties of the step deltas\<close>

lemma length_filter_positions:
  "length (filter (\<lambda>p. P (xs ! p)) [0..<length xs]) = length (filter P xs)"
proof -
  have "filter P xs = filter P (map (\<lambda>p. xs ! p) [0..<length xs])"
    by (simp add: map_nth)
  also have "\<dots> = map (\<lambda>p. xs ! p) (filter (\<lambda>p. P (xs ! p)) [0..<length xs])"
    by (simp add: filter_map comp_def)
  finally show ?thesis by simp
qed

lemma length_filter_eq_distinct:
  "distinct xs \<Longrightarrow> length (filter (\<lambda>y. x = y) xs) = (if x \<in> set xs then 1 else 0)"
  by (induction xs) auto

lemma length_concat_indicator:
  "length (concat (map (\<lambda>p. if P p then [f p] else []) ps)) = length (filter P ps)"
  by (induction ps) auto

lemma length_filter_card:
  "distinct xs \<Longrightarrow> length (filter (\<lambda>x. x \<in> A) xs) = card (set xs \<inter> A)"
proof -
  assume d: "distinct xs"
  have "set (filter (\<lambda>x. x \<in> A) xs) = set xs \<inter> A" by auto
  moreover have "distinct (filter (\<lambda>x. x \<in> A) xs)" using d by simp
  ultimately show ?thesis using distinct_card by fastforce
qed

lemma length_filter_inter:
  assumes "distinct xs" "distinct ys"
  shows "length (filter (\<lambda>x. x \<in> set ys) xs) = length (filter (\<lambda>y. y \<in> set xs) ys)"
  using assms by (simp add: length_filter_card Int_commute)

lemma length_addedRanks:
  "length (addedRanks (stepDeltas previous current))
     = length (filter (\<lambda>x. x \<notin> set previous) current)"
  using length_filter_positions[of "\<lambda>x. x \<notin> set previous" current]
  by (simp add: stepDeltas_def)

lemma length_removedRanks:
  "length (removedRanks (stepDeltas previous current))
     = length (filter (\<lambda>x. x \<notin> set current) previous)"
  using length_filter_positions[of "\<lambda>x. x \<notin> set current" previous]
  by (simp add: stepDeltas_def)

lemma conserved_inner:
  assumes "distinct previous"
  shows "length (concat (map (\<lambda>q. if x = previous ! q then [(p, q)] else []) [0..<length previous]))
     = (if x \<in> set previous then 1 else 0)"
proof -
  have "length (concat (map (\<lambda>q. if x = previous ! q then [(p, q)] else []) [0..<length previous]))
      = length (filter (\<lambda>q. x = previous ! q) [0..<length previous])"
    by (rule length_concat_indicator)
  also have "\<dots> = length (filter (\<lambda>y. x = y) previous)"
    by (rule length_filter_positions[of "\<lambda>y. x = y" previous])
  also have "\<dots> = (if x \<in> set previous then 1 else 0)"
    using assms by (rule length_filter_eq_distinct)
  finally show ?thesis .
qed

lemma sum_list_indicator:
  "sum_list (map (\<lambda>p. if P p then 1 else 0) ps) = length (filter P ps)"
  by (induction ps) auto

lemma length_conservedRanks:
  assumes "distinct previous"
  shows "length (conservedRanks (stepDeltas previous current))
     = length (filter (\<lambda>x. x \<in> set previous) current)"
proof -
  define F where "F = (\<lambda>p. concat (map (\<lambda>q. if current ! p = previous ! q then [(p, q)] else [])
            [0..<length previous]))"
  have inner: "length (F p) = (if current ! p \<in> set previous then 1 else 0)" for p
    unfolding F_def by (rule conserved_inner[OF assms])
  have "conservedRanks (stepDeltas previous current) = concat (map F [0..<length current])"
    by (simp add: stepDeltas_def F_def)
  then have "length (conservedRanks (stepDeltas previous current))
      = sum_list (map (\<lambda>p. length (F p)) [0..<length current])"
    by (simp add: length_concat comp_def)
  also have "\<dots> = sum_list (map (\<lambda>p. if current ! p \<in> set previous then 1 else 0) [0..<length current])"
    by (simp only: inner)
  also have "\<dots> = length (filter (\<lambda>p. current ! p \<in> set previous) [0..<length current])"
    by (rule sum_list_indicator)
  also have "\<dots> = length (filter (\<lambda>x. x \<in> set previous) current)"
    by (rule length_filter_positions[of "\<lambda>x. x \<in> set previous" current])
  finally show ?thesis .
qed

lemma added_plus_conserved:
  assumes "distinct previous"
  shows "length (addedRanks (stepDeltas previous current))
     + length (conservedRanks (stepDeltas previous current)) = length current"
  using sum_length_filter_compl[of "\<lambda>x. x \<in> set previous" current]
  by (simp add: length_addedRanks length_conservedRanks[OF assms])

lemma removed_plus_conserved:
  assumes "distinct previous" "distinct current"
  shows "length (removedRanks (stepDeltas previous current))
     + length (conservedRanks (stepDeltas previous current)) = length previous"
  using sum_length_filter_compl[of "\<lambda>x. x \<in> set current" previous]
    length_filter_inter[OF assms]
  by (simp add: length_removedRanks length_conservedRanks[OF assms(1)])

lemma set_addedRanks:
  "set (addedRanks (stepDeltas previous current))
     = {p. p < length current \<and> current ! p \<notin> set previous}"
  by (auto simp add: stepDeltas_def)

lemma set_removedRanks:
  "set (removedRanks (stepDeltas previous current))
     = {q. q < length previous \<and> previous ! q \<notin> set current}"
  by (auto simp add: stepDeltas_def)

lemma set_conservedRanks:
  "set (conservedRanks (stepDeltas previous current))
     = {(p, q). p < length current \<and> q < length previous \<and> current ! p = previous ! q}"
  by (auto simp add: stepDeltas_def)

lemma conserved_new_positions:
  "fst ` set (conservedRanks (stepDeltas previous current))
     = {p. p < length current \<and> current ! p \<in> set previous}"
  by (force simp add: set_conservedRanks in_set_conv_nth)

lemma conserved_old_positions:
  "snd ` set (conservedRanks (stepDeltas previous current))
     = {q. q < length previous \<and> previous ! q \<in> set current}"
  by (force simp add: set_conservedRanks in_set_conv_nth)

text \<open>
  Claim C2. For an iteration from the active set \<open>previous\<close> to the active set
  \<open>current\<close>, both without a repeated index: the number of added ranks minus the number
  of removed ranks is the size of \<open>current\<close> minus the size of \<open>previous\<close>; the conserved
  ranks and the added ranks are disjoint and cover the positions of \<open>current\<close>, hence its
  indices; the conserved ranks, mapped back to their old positions, and the removed ranks
  are disjoint and cover the positions of \<open>previous\<close>, hence its indices; and a conserved
  rank and its old position hold the same index.
\<close>

theorem step_deltas_account_for_the_change:
  assumes "distinct previous" and "distinct current"
  shows "int (length (addedRanks (stepDeltas previous current)))
           - int (length (removedRanks (stepDeltas previous current)))
         = int (length current) - int (length previous) \<and>
     fst ` set (conservedRanks (stepDeltas previous current))
       \<union> set (addedRanks (stepDeltas previous current)) = {0..<length current} \<and>
     fst ` set (conservedRanks (stepDeltas previous current))
       \<inter> set (addedRanks (stepDeltas previous current)) = {} \<and>
     snd ` set (conservedRanks (stepDeltas previous current))
       \<union> set (removedRanks (stepDeltas previous current)) = {0..<length previous} \<and>
     snd ` set (conservedRanks (stepDeltas previous current))
       \<inter> set (removedRanks (stepDeltas previous current)) = {} \<and>
     (\<forall>(p, q) \<in> set (conservedRanks (stepDeltas previous current)).
        current ! p = previous ! q) \<and>
     (\<lambda>p. current ! p) ` (fst ` set (conservedRanks (stepDeltas previous current))
       \<union> set (addedRanks (stepDeltas previous current))) = set current \<and>
     (\<lambda>q. previous ! q) ` (snd ` set (conservedRanks (stepDeltas previous current))
       \<union> set (removedRanks (stepDeltas previous current))) = set previous"
proof (intro conjI)
  show "int (length (addedRanks (stepDeltas previous current)))
           - int (length (removedRanks (stepDeltas previous current)))
         = int (length current) - int (length previous)"
    using added_plus_conserved[OF assms(1), of current] removed_plus_conserved[OF assms]
    by linarith
  show c: "fst ` set (conservedRanks (stepDeltas previous current))
       \<union> set (addedRanks (stepDeltas previous current)) = {0..<length current}"
    unfolding conserved_new_positions set_addedRanks by auto
  show "fst ` set (conservedRanks (stepDeltas previous current))
       \<inter> set (addedRanks (stepDeltas previous current)) = {}"
    unfolding conserved_new_positions set_addedRanks by auto
  show p: "snd ` set (conservedRanks (stepDeltas previous current))
       \<union> set (removedRanks (stepDeltas previous current)) = {0..<length previous}"
    unfolding conserved_old_positions set_removedRanks by auto
  show "snd ` set (conservedRanks (stepDeltas previous current))
       \<inter> set (removedRanks (stepDeltas previous current)) = {}"
    unfolding conserved_old_positions set_removedRanks by auto
  show "\<forall>(p, q) \<in> set (conservedRanks (stepDeltas previous current)).
        current ! p = previous ! q"
    unfolding set_conservedRanks by auto
  show "(\<lambda>p. current ! p) ` (fst ` set (conservedRanks (stepDeltas previous current))
       \<union> set (addedRanks (stepDeltas previous current))) = set current"
    unfolding c by (simp add: set_conv_nth atLeast0LessThan image_def) blast
  show "(\<lambda>q. previous ! q) ` (snd ` set (conservedRanks (stepDeltas previous current))
       \<union> set (removedRanks (stepDeltas previous current))) = set previous"
    unfolding p by (simp add: set_conv_nth atLeast0LessThan image_def) blast
qed

text \<open>
  The witness of C2: from the active set 5, 2, 7 to the active set 2, 7, 9, 4. The indices
  9 and 4 are added at the ranks 2 and 3, the index 5 is removed from the rank 0, and the
  indices 2 and 7 move from the ranks 1 and 2 to the ranks 0 and 1.
\<close>

theorem step_deltas_account_for_the_change_witness:
  "distinct [5, 2, 7 :: nat] \<and> distinct [2, 7, 9, 4 :: nat] \<and>
   stepDeltas [5, 2, 7] [2, 7, 9, 4]
     = \<lparr>addedRanks = [2, 3], conservedRanks = [(0, 1), (1, 2)], removedRanks = [0]\<rparr> \<and>
   int (length (addedRanks (stepDeltas [5, 2, 7] [2, 7, 9, 4])))
     - int (length (removedRanks (stepDeltas [5, 2, 7] [2, 7, 9, 4]))) = 4 - 3 \<and>
   snd ` set (conservedRanks (stepDeltas [5, 2, 7] [2, 7, 9, 4]))
     \<union> set (removedRanks (stepDeltas [5, 2, 7] [2, 7, 9, 4])) = {0..<length [5, 2, 7 :: nat]}"
proof -
  have d: "distinct [5, 2, 7 :: nat]" "distinct [2, 7, 9, 4 :: nat]" by simp_all
  have v: "stepDeltas [5, 2, 7] [2, 7, 9, 4]
     = \<lparr>addedRanks = [2, 3], conservedRanks = [(0, 1), (1, 2)], removedRanks = [0]\<rparr>"
    by (simp add: stepDeltas_def upt_rec)
  show ?thesis
    using step_deltas_account_for_the_change[OF d] d v by auto
qed

section \<open>Properties of the least-squares fit\<close>

lemma sum_list_zero_coefficients:
  "sum_list (map2 (\<lambda>column c. c * f column) columns (replicate n (0::real))) = 0"
proof (induction columns arbitrary: n)
  case Nil
  then show ?case by simp
next
  case (Cons a columns)
  then show ?case by (cases n) simp_all
qed

lemma fittedValues_padded:
  assumes "length coefficients = length active"
  shows "fittedValues proxy (active @ added) (coefficients @ replicate (length added) 0)
       = fittedValues proxy active coefficients"
proof -
  have "sum_list (map2 (\<lambda>column c. c * column ! i)
          (evaluateColumns proxy (active @ added)) (coefficients @ replicate (length added) 0))
      = sum_list (map2 (\<lambda>column c. c * column ! i) (evaluateColumns proxy active) coefficients)" for i
  proof -
    have "zip (evaluateColumns proxy (active @ added)) (coefficients @ replicate (length added) 0)
        = zip (evaluateColumns proxy active) coefficients
          @ zip (evaluateColumns proxy added) (replicate (length added) 0)"
      using assms by (simp add: evaluateColumns_def)
    then show ?thesis
      using sum_list_zero_coefficients[of "\<lambda>column. column ! i" "evaluateColumns proxy added" "length added"]
      by simp
  qed
  then show ?thesis by (simp add: fittedValues_def)
qed

lemma rss_padded:
  assumes "length coefficients = length active"
  shows "residualSumOfSquares proxy y (active @ added, coefficients @ replicate (length added) 0)
       = residualSumOfSquares proxy y (active, coefficients)"
  using fittedValues_padded[OF assms] by (simp add: residualSumOfSquares_def)

lemma added_columns_do_not_raise_rss:
  assumes "isLeastSquares proxy y (active, coefficients)"
    and "isLeastSquares proxy y (active @ added, coefficients')"
  shows "residualSumOfSquares proxy y (active @ added, coefficients')
       \<le> residualSumOfSquares proxy y (active, coefficients)"
proof -
  from assms(1) have len: "length coefficients = length active"
    by (simp add: isLeastSquares_def)
  then have "length (coefficients @ replicate (length added) 0) = length (active @ added)"
    by simp
  with assms(2)
  have "residualSumOfSquares proxy y (active @ added, coefficients')
      \<le> residualSumOfSquares proxy y (active @ added, coefficients @ replicate (length added) 0)"
    unfolding isLeastSquares_def by (metis fst_conv)
  then show ?thesis using rss_padded[OF len] by simp
qed

text \<open>
  Claim C6. In a Basis Sequence whose steps are exact least-squares fits and whose steps
  only add columns, the sum of squares of the residual (response minus fitted values) of
  a step is at most that of the step before it.
\<close>

theorem residual_sum_of_squares_non_increasing:
  assumes "exactFits proxy y basisSequence"
    and "onlyAddsColumns basisSequence"
    and "Suc t < length basisSequence"
  shows "residualSumOfSquares proxy y (basisSequence ! Suc t)
       \<le> residualSumOfSquares proxy y (basisSequence ! t)"
proof -
  obtain active coefficients where s: "basisSequence ! t = (active, coefficients)"
    by (cases "basisSequence ! t")
  obtain active' coefficients' where s': "basisSequence ! Suc t = (active', coefficients')"
    by (cases "basisSequence ! Suc t")
  from assms(2,3) s s' obtain added where a: "active' = active @ added"
    unfolding onlyAddsColumns_def by fastforce
  have "basisSequence ! t \<in> set basisSequence" "basisSequence ! Suc t \<in> set basisSequence"
    using assms(3) by simp_all
  with assms(1) have "isLeastSquares proxy y (active, coefficients)"
    "isLeastSquares proxy y (active @ added, coefficients')"
    unfolding exactFits_def s s' a by blast+
  then show ?thesis unfolding s s' a by (rule added_columns_do_not_raise_rss)
qed

lemma sumOfSquares_nonneg: "0 \<le> sumOfSquares r"
  unfolding sumOfSquares_def by (rule sum_list_nonneg) auto

lemma example_rss_constant:
  "residualSumOfSquares exampleProxy exampleResponse ([0], [c]) = (1 - c)\<^sup>2 + (3 - c)\<^sup>2"
  by (simp add: residualSumOfSquares_def sumOfSquares_def residual_def fittedValues_def
      evaluateColumns_def exampleProxy_def exampleResponse_def upt_rec power2_eq_square)

lemma example_rss_linear:
  "residualSumOfSquares exampleProxy exampleResponse ([0, 1], [1, 2]) = 0"
  by (simp add: residualSumOfSquares_def sumOfSquares_def residual_def fittedValues_def
      evaluateColumns_def exampleProxy_def exampleResponse_def upt_rec)

lemma example_exactFits: "exactFits exampleProxy exampleResponse exampleSequence"
proof -
  have "residualSumOfSquares exampleProxy exampleResponse ([0], [2])
      \<le> residualSumOfSquares exampleProxy exampleResponse ([0], c)" if "length c = 1" for c
  proof -
    from that obtain c0 where c: "c = [c0]" by (cases c) auto
    have "(1 - c0)\<^sup>2 + (3 - c0)\<^sup>2 = 2 + 2 * (c0 - 2)\<^sup>2"
      by (simp add: power2_eq_square algebra_simps)
    moreover have "0 \<le> (c0 - 2)\<^sup>2" by simp
    ultimately show ?thesis unfolding c example_rss_constant by simp
  qed
  then have "isLeastSquares exampleProxy exampleResponse ([0], [2])"
    by (simp add: isLeastSquares_def)
  moreover have "isLeastSquares exampleProxy exampleResponse ([0, 1], [1, 2])"
    unfolding isLeastSquares_def example_rss_linear
    by (simp add: residualSumOfSquares_def sumOfSquares_nonneg)
  ultimately show ?thesis by (simp add: exactFits_def exampleSequence_def)
qed

lemma example_onlyAddsColumns: "onlyAddsColumns exampleSequence"
  by (simp add: onlyAddsColumns_def exampleSequence_def)

text \<open>
  The witness of C6: on the response 1, 3 at the points 0, 1, the constant 2 is the
  least-squares fit of the constant function and leaves the sum of squares 2; adding the
  linear function gives the fit \<open>1 + 2 x\<close>, which leaves 0.
\<close>

theorem residual_sum_of_squares_non_increasing_witness:
  "exactFits exampleProxy exampleResponse exampleSequence \<and>
   onlyAddsColumns exampleSequence \<and>
   Suc 0 < length exampleSequence \<and>
   residualSumOfSquares exampleProxy exampleResponse (exampleSequence ! 0) = 2 \<and>
   residualSumOfSquares exampleProxy exampleResponse (exampleSequence ! Suc 0) = 0 \<and>
   residualSumOfSquares exampleProxy exampleResponse (exampleSequence ! Suc 0)
     \<le> residualSumOfSquares exampleProxy exampleResponse (exampleSequence ! 0)"
proof -
  have l: "Suc 0 < length exampleSequence" by (simp add: exampleSequence_def)
  have "residualSumOfSquares exampleProxy exampleResponse (exampleSequence ! 0) = 2"
    by (simp add: exampleSequence_def example_rss_constant)
  moreover have "exampleSequence ! Suc 0 = ([0, 1], [1, 2])"
    by (simp add: exampleSequence_def)
  then have "residualSumOfSquares exampleProxy exampleResponse (exampleSequence ! Suc 0) = 0"
    by (simp only: example_rss_linear)
  ultimately show ?thesis
    using residual_sum_of_squares_non_increasing
      [OF example_exactFits example_onlyAddsColumns l] example_exactFits
      example_onlyAddsColumns l
    by simp
qed

end
